theory Spec2Isabelle
  imports Complex_Main "HOL-Library.Multiset"
begin

section \<open>Gain versus voltage: the per-channel power-law fit of GainVoltage.C\<close>

text \<open>
  The macro \<^verbatim>\<open>GainVoltage(chimney)\<close> reads the text file \<^verbatim>\<open>chimney.txt\<close> once per
  photomultiplier (PMT), keeps the rows of that PMT, fits a straight line to the logarithms
  of gain and voltage and writes the fit parameters to a comma-separated text file.

  Conventions of the embedding:
  \<^item> \<^verbatim>\<open>double\<close> / \<^verbatim>\<open>Double_t\<close> values are real numbers (rounding, infinities and NaN are
    not modelled);
  \<^item> the input file is the sequence of fields that \<^verbatim>\<open>operator>>\<close> meets: a field is
    either a number or text that is not a number;
  \<^item> a store outside a six-element array is a fault that ends the run;
  \<^item> the contents of an array that was declared without initialiser are a parameter;
  \<^item> the fit itself (ROOT's \<^verbatim>\<open>TGraph::Fit\<close>) and the chi-square probability are
    parameters of the model, collected in a record;
  \<^item> the text file is the sequence of the items sent to \<^verbatim>\<open>fout\<close>, the console the
    sequence of the items sent to \<^verbatim>\<open>std::cout\<close>, and the ROOT file the list of the
    canvases written, each with the two graphs and the two functions drawn on it. Titles,
    marker styles and the PDF files are left out.
\<close>

subsection \<open>Constants\<close>

definition NPMT :: nat where
  "NPMT = 10"

definition NPAR :: nat where
  "NPAR = 2"

definition fbegin :: real where
  "fbegin = 1000"

definition fend :: real where
  "fend = 2000"

definition TMath_Power :: "real \<Rightarrow> nat \<Rightarrow> real" where
  "TMath_Power x n = x ^ n"

definition TMath_Log :: "real \<Rightarrow> real" where
  "TMath_Log x = ln x"

definition TMath_Exp :: "real \<Rightarrow> real" where
  "TMath_Exp x = exp x"

subsection \<open>Input fields, output items, faults\<close>

datatype token = Num real | Bad string

datatype item = Str string | Dbl real | IntV int | Endl

datatype fault = OutOfBounds nat

subsection \<open>The fit function object and the fitting library\<close>

record tf1 =
  par0 :: real
  par1 :: real
  parerr0 :: real
  parerr1 :: real
  chisquare :: real
  ndf :: int

record graph =
  gx :: "real list"
  gy :: "real list"
  gex :: "real list"
  gey :: "real list"

record minimum =
  m_par0 :: real
  m_par1 :: real
  m_parerr0 :: real
  m_parerr1 :: real
  m_chisquare :: real

record root_lib =
  Minimize :: "graph \<Rightarrow> tf1 \<Rightarrow> minimum"
  TMath_Prob :: "real \<Rightarrow> int \<Rightarrow> real"

definition new_TF1 :: tf1 where
  "new_TF1 = \<lparr>par0 = 0, par1 = 0, parerr0 = 0, parerr1 = 0, chisquare = 0, ndf = 0\<rparr>"


definition SetParameters :: "real \<Rightarrow> real \<Rightarrow> tf1 \<Rightarrow> tf1" where
  "SetParameters p0 p1 f = f\<lparr>par0 := p0, par1 := p1\<rparr>"

definition GetParameters :: "tf1 \<Rightarrow> real \<times> real" where
  "GetParameters f = (par0 f, par1 f)"

definition GetParError :: "tf1 \<Rightarrow> nat \<Rightarrow> real" where
  "GetParError f i = (if i = 0 then parerr0 f else parerr1 f)"

definition GetChisquare :: "tf1 \<Rightarrow> real" where
  "GetChisquare f = chisquare f"

definition GetNDF :: "tf1 \<Rightarrow> int" where
  "GetNDF f = ndf f"

definition GetProb :: "root_lib \<Rightarrow> tf1 \<Rightarrow> real" where
  "GetProb lib f = TMath_Prob lib (chisquare f) (ndf f)"

text \<open>
  Modelled from the spec: \<^verbatim>\<open>TGraph::Fit\<close> belongs to ROOT and is not part of
  GainVoltage.C. The minimisation is the parameter \<open>Minimize\<close>, which sees the data and
  the function object as the previous pass left it. The number of degrees of freedom that
  the fit stores follows the specification: "degrees of freedom (= N - 2, since 2 free
  parameters)".
\<close>

definition Fit :: "root_lib \<Rightarrow> graph \<Rightarrow> tf1 \<Rightarrow> tf1" where
  "Fit lib data f =
     (let m = Minimize lib data f
      in f\<lparr>par0 := m_par0 m, par1 := m_par1 m,
           parerr0 := m_parerr0 m, parerr1 := m_parerr1 m,
           chisquare := m_chisquare m,
           ndf := int (length (gx data)) - int NPAR\<rparr>)"


subsection \<open>Reading the rows of one PMT\<close>

record raw =
  voltage_raw :: "nat \<Rightarrow> real"
  voltage_error_raw :: "nat \<Rightarrow> real"
  gain_raw :: "nat \<Rightarrow> real"
  gain_error_raw :: "nat \<Rightarrow> real"
  num_data_points :: nat

record uninit =
  u_voltage :: "nat \<Rightarrow> real"
  u_gain :: "nat \<Rightarrow> real"
  u_gain_error :: "nat \<Rightarrow> real"

definition declare_arrays :: "uninit \<Rightarrow> raw" where
  "declare_arrays u =
     \<lparr>voltage_raw = u_voltage u, voltage_error_raw = (\<lambda>i. 2),
      gain_raw = u_gain u, gain_error_raw = u_gain_error u, num_data_points = 0\<rparr>"

fun read_loop :: "nat \<Rightarrow> token list \<Rightarrow> raw \<Rightarrow> fault + raw" where
  "read_loop pmt_num (Num p # Num v # Num g # Num ge # rest) a =
     (if p = real (pmt_num + 1) then
        (if num_data_points a < 6 then
           read_loop pmt_num rest
             (a\<lparr>voltage_raw := (voltage_raw a)(num_data_points a := v),
                gain_raw := (gain_raw a)(num_data_points a := g * TMath_Power 10 7),
                gain_error_raw := (gain_error_raw a)(num_data_points a := ge * TMath_Power 10 7),
                num_data_points := num_data_points a + 1\<rparr>)
         else Inl (OutOfBounds (num_data_points a)))
      else read_loop pmt_num rest a)"
| "read_loop pmt_num _ a = Inr a"

definition load_channel :: "uninit \<Rightarrow> token list \<Rightarrow> nat \<Rightarrow> fault + raw" where
  "load_channel u toks pmt_num = read_loop pmt_num toks (declare_arrays u)"

subsection \<open>The properly sized arrays\<close>

definition log_graph :: "raw \<Rightarrow> graph" where
  "log_graph a =
     \<lparr>gx = map (\<lambda>i. TMath_Log (voltage_raw a i)) [0..<num_data_points a],
      gy = map (\<lambda>i. TMath_Log (gain_raw a i)) [0..<num_data_points a],
      gex = map (\<lambda>i. voltage_error_raw a i / voltage_raw a i) [0..<num_data_points a],
      gey = map (\<lambda>i. gain_error_raw a i / gain_raw a i) [0..<num_data_points a]\<rparr>"

definition nolog_graph :: "raw \<Rightarrow> graph" where
  "nolog_graph a =
     \<lparr>gx = map (voltage_raw a) [0..<num_data_points a],
      gy = map (gain_raw a) [0..<num_data_points a],
      gex = map (voltage_error_raw a) [0..<num_data_points a],
      gey = map (gain_error_raw a) [0..<num_data_points a]\<rparr>"

subsection \<open>The fit with its nine repetitions\<close>

function refit_loop :: "root_lib \<Rightarrow> graph \<Rightarrow> nat \<Rightarrow> tf1 \<Rightarrow> tf1" where
  "refit_loop lib data j fit =
     (if j < 9 then
        (let par = GetParameters fit;
             fit1 = SetParameters (fst par) (snd par) fit
         in refit_loop lib data (j + 1) (Fit lib data fit1))
      else fit)"
  by pat_completeness auto
termination
  by (relation "measure (\<lambda>(lib, data, j, fit). 9 - j)") auto

declare refit_loop.simps [simp del]

definition fit_channel :: "root_lib \<Rightarrow> graph \<Rightarrow> tf1" where
  "fit_channel lib data =
     refit_loop lib data 0 (Fit lib data (SetParameters (-30) 7 new_TF1))"

subsection \<open>The fit table and the other outputs\<close>

record canvas =
  c_index :: nat
  pad1_data :: graph
  pad1_fit :: tf1
  pad2_data :: graph
  pad2_gainFunc :: "real \<times> real"

record out =
  fout :: "item list"
  cout :: "item list"
  rootfile :: "canvas list"

definition dash_line :: "item list" where
  "dash_line =
     [Str ''--'', Str '','', Str ''--'', Str '','', Str ''--'', Str '','', Str ''--'',
      Str '','', Str ''--'', Str '','', Str ''--'', Str '','', Str ''--'', Endl]"

definition value_line :: "root_lib \<Rightarrow> tf1 \<Rightarrow> item list" where
  "value_line lib fit =
     [Dbl (par0 fit), Str '','', Dbl (GetParError fit 0),
      Str '','', Dbl (par1 fit), Str '','', Dbl (GetParError fit 1),
      Str '','', Dbl (GetChisquare fit),
      Str '','', IntV (GetNDF fit),
      Str '','', Dbl (GetProb lib fit), Endl]"

definition write_fit_parameters :: "root_lib \<Rightarrow> tf1 \<Rightarrow> item list" where
  "write_fit_parameters lib fit = concat (replicate 2 dash_line) @ value_line lib fit"

definition skip_message :: "nat \<Rightarrow> item list" where
  "skip_message pmt_num =
     [Str ''Improper number of data points for PMT '', IntV (int pmt_num + 1),
      Str ''. SKIPPING'', Endl]"

definition fitting_message :: "nat \<Rightarrow> item list" where
  "fitting_message pmt_num = [Str ''Fitting '', IntV (int pmt_num + 1), Endl]"

subsection \<open>One PMT, and the loop over all of them\<close>

definition analyze_pmt :: "root_lib \<Rightarrow> uninit \<Rightarrow> token list \<Rightarrow> nat \<Rightarrow> out \<Rightarrow> fault + out" where
  "analyze_pmt lib u toks pmt_num st =
     (case load_channel u toks pmt_num of
        Inl e \<Rightarrow> Inl e
      | Inr a \<Rightarrow>
          if num_data_points a \<noteq> 3 \<and> num_data_points a \<noteq> 6 then
            Inr (st\<lparr>cout := cout st @ skip_message pmt_num\<rparr>)
          else
            (let data = log_graph a;
                 fit = fit_channel lib data;
                 constant = par0 fit;
                 exponent = par1 fit;
                 amplitude = TMath_Exp constant
             in Inr (st\<lparr>fout := fout st @ write_fit_parameters lib fit,
                        cout := cout st @ fitting_message pmt_num,
                        rootfile := rootfile st @
                          [\<lparr>c_index = pmt_num, pad1_data = data, pad1_fit = fit,
                            pad2_data = nolog_graph a,
                            pad2_gainFunc = (amplitude, exponent)\<rparr>]\<rparr>)))"

function pmt_loop :: "root_lib \<Rightarrow> (nat \<Rightarrow> uninit) \<Rightarrow> token list \<Rightarrow> nat \<Rightarrow> out \<Rightarrow> fault + out" where
  "pmt_loop lib mem toks pmt_num st =
     (if pmt_num < NPMT then
        (case analyze_pmt lib (mem pmt_num) toks pmt_num st of
           Inl e \<Rightarrow> Inl e
         | Inr st1 \<Rightarrow> pmt_loop lib mem toks (pmt_num + 1) st1)
      else Inr st)"
  by pat_completeness auto
termination
  by (relation "measure (\<lambda>(lib, mem, toks, pmt_num, st). NPMT - pmt_num)") auto

declare pmt_loop.simps [simp del]

definition GainVoltage :: "root_lib \<Rightarrow> (nat \<Rightarrow> uninit) \<Rightarrow> token list \<Rightarrow> fault + out" where
  "GainVoltage lib mem toks = pmt_loop lib mem toks 0 \<lparr>fout = [], cout = [], rootfile = []\<rparr>"

subsection \<open>The rows of the input, as the specification speaks of them\<close>

record measurement =
  channel_id :: real
  voltage :: real
  gain :: real
  gain_error :: real

text \<open>
  The measurements that the reading loop completes: groups of four numeric fields, up to the
  first field that is not a number or the end of the input.
\<close>

fun records :: "token list \<Rightarrow> measurement list" where
  "records (Num p # Num v # Num g # Num ge # rest) =
     \<lparr>channel_id = p, voltage = v, gain = g, gain_error = ge\<rparr> # records rest"
| "records _ = []"

definition matching :: "nat \<Rightarrow> token list \<Rightarrow> measurement list" where
  "matching pmt_num toks = filter (\<lambda>m. channel_id m = real (pmt_num + 1)) (records toks)"

definition store_row :: "raw \<Rightarrow> measurement \<Rightarrow> raw" where
  "store_row a m =
     a\<lparr>voltage_raw := (voltage_raw a)(num_data_points a := voltage m),
       gain_raw := (gain_raw a)(num_data_points a := gain m * 10 ^ 7),
       gain_error_raw := (gain_error_raw a)(num_data_points a := gain_error m * 10 ^ 7),
       num_data_points := num_data_points a + 1\<rparr>"

text \<open>The regression inputs in the words of the specification.\<close>

definition LogChannelSample :: "measurement list \<Rightarrow> graph" where
  "LogChannelSample ms =
     \<lparr>gx = map (\<lambda>m. ln (voltage m)) ms,
      gy = map (\<lambda>m. ln (gain m * 10 ^ 7)) ms,
      gex = map (\<lambda>m. 2 / voltage m) ms,
      gey = map (\<lambda>m. (gain_error m * 10 ^ 7) / (gain m * 10 ^ 7)) ms\<rparr>"

definition ChannelSample :: "measurement list \<Rightarrow> graph" where
  "ChannelSample ms =
     \<lparr>gx = map voltage ms,
      gy = map (\<lambda>m. gain m * 10 ^ 7) ms,
      gex = map (\<lambda>m. 2) ms,
      gey = map (\<lambda>m. gain_error m * 10 ^ 7) ms\<rparr>"

definition valid_count :: "nat \<Rightarrow> bool" where
  "valid_count n = (n = 3 \<or> n = 6)"

text \<open>What one PMT contributes to the outputs, in terms of its rows.\<close>

definition channel_fit :: "root_lib \<Rightarrow> token list \<Rightarrow> nat \<Rightarrow> tf1" where
  "channel_fit lib toks pmt_num = fit_channel lib (LogChannelSample (matching pmt_num toks))"

definition channel_canvas :: "root_lib \<Rightarrow> token list \<Rightarrow> nat \<Rightarrow> canvas" where
  "channel_canvas lib toks pmt_num =
     \<lparr>c_index = pmt_num, pad1_data = LogChannelSample (matching pmt_num toks),
      pad1_fit = channel_fit lib toks pmt_num,
      pad2_data = ChannelSample (matching pmt_num toks),
      pad2_gainFunc =
        (exp (par0 (channel_fit lib toks pmt_num)), par1 (channel_fit lib toks pmt_num))\<rparr>"

definition table_block :: "root_lib \<Rightarrow> token list \<Rightarrow> nat \<Rightarrow> item list" where
  "table_block lib toks pmt_num =
     (if valid_count (length (matching pmt_num toks))
      then write_fit_parameters lib (channel_fit lib toks pmt_num) else [])"

definition console_block :: "token list \<Rightarrow> nat \<Rightarrow> item list" where
  "console_block toks pmt_num =
     (if valid_count (length (matching pmt_num toks))
      then fitting_message pmt_num else skip_message pmt_num)"

definition canvas_block :: "root_lib \<Rightarrow> token list \<Rightarrow> nat \<Rightarrow> canvas list" where
  "canvas_block lib toks pmt_num =
     (if valid_count (length (matching pmt_num toks))
      then [channel_canvas lib toks pmt_num] else [])"

definition channel_out :: "root_lib \<Rightarrow> token list \<Rightarrow> out \<Rightarrow> nat \<Rightarrow> out" where
  "channel_out lib toks st pmt_num =
     st\<lparr>fout := fout st @ table_block lib toks pmt_num,
        cout := cout st @ console_block toks pmt_num,
        rootfile := rootfile st @ canvas_block lib toks pmt_num\<rparr>"

definition fitted_pmts :: "token list \<Rightarrow> nat list" where
  "fitted_pmts toks = filter (\<lambda>k. valid_count (length (matching k toks))) [0..<NPMT]"

definition fitted_channel_ids :: "token list \<Rightarrow> nat list" where
  "fitted_channel_ids toks = map (\<lambda>pmt_num. pmt_num + 1) (fitted_pmts toks)"

text \<open>
  The passes of the fit in the words of the specification: a first regression from the fixed
  starting guess, and each further pass started from the parameters of the pass before it.
\<close>

fun refinement_pass :: "root_lib \<Rightarrow> graph \<Rightarrow> nat \<Rightarrow> tf1" where
  "refinement_pass lib data 0 = Fit lib data (new_TF1\<lparr>par0 := - 30, par1 := 7\<rparr>)"
| "refinement_pass lib data (Suc k) =
     (let previous = refinement_pass lib data k
      in Fit lib data (previous\<lparr>par0 := par0 previous, par1 := par1 previous\<rparr>))"

text \<open>Reading the fit table back: lines end with \<open>Endl\<close>, fields are separated by commas.\<close>

definition line_count :: "item list \<Rightarrow> nat" where
  "line_count xs = length (filter (\<lambda>x. x = Endl) xs)"

fun split_items :: "item \<Rightarrow> item list \<Rightarrow> item list list" where
  "split_items sep [] = [[]]"
| "split_items sep (x # xs) =
     (if x = sep then [] # split_items sep xs
      else (case split_items sep xs of
              [] \<Rightarrow> [[x]]
            | r # rs \<Rightarrow> (x # r) # rs))"

definition lines_of :: "item list \<Rightarrow> item list list" where
  "lines_of xs = butlast (split_items Endl xs)"

definition fields_of :: "item list \<Rightarrow> item list list" where
  "fields_of line = split_items (Str '','') line"

text \<open>The rows made of a sequence of numeric fields, four at a time.\<close>

fun rows_of :: "real list \<Rightarrow> measurement list" where
  "rows_of (p # v # g # ge # rest) =
     \<lparr>channel_id = p, voltage = v, gain = g, gain_error = ge\<rparr> # rows_of rest"
| "rows_of _ = []"

subsection \<open>Concrete inputs\<close>

text \<open>A fitting library whose minimiser stays at the starting point.\<close>

definition still_lib :: root_lib where
  "still_lib =
     \<lparr>Minimize = (\<lambda>data f. \<lparr>m_par0 = par0 f, m_par1 = par1 f, m_parerr0 = 0,
                              m_parerr1 = 0, m_chisquare = 0\<rparr>),
      TMath_Prob = (\<lambda>c n. 1)\<rparr>"

definition zero_mem :: "nat \<Rightarrow> uninit" where
  "zero_mem k = \<lparr>u_voltage = (\<lambda>i. 0), u_gain = (\<lambda>i. 0), u_gain_error = (\<lambda>i. 0)\<rparr>"

text \<open>Three rows of PMT 1, seven rows of PMT 1, and four rows of PMT 2.\<close>

definition three_rows :: "token list" where
  "three_rows =
     [Num 1, Num 1000, Num 1, Num 2,
      Num 1, Num 1500, Num 3, Num 4,
      Num 1, Num 2000, Num 5, Num 6]"

definition seven_rows :: "token list" where
  "seven_rows =
     [Num 1, Num 1000, Num 1, Num 2,
      Num 1, Num 1100, Num 1, Num 2,
      Num 1, Num 1200, Num 1, Num 2,
      Num 1, Num 1300, Num 1, Num 2,
      Num 1, Num 1400, Num 1, Num 2,
      Num 1, Num 1500, Num 1, Num 2,
      Num 1, Num 1600, Num 1, Num 2]"

definition four_rows :: "token list" where
  "four_rows =
     [Num 2, Num 1000, Num 1, Num 2,
      Num 2, Num 1500, Num 3, Num 4,
      Num 2, Num 1800, Num 3, Num 4,
      Num 2, Num 2000, Num 5, Num 6]"

text \<open>The arrays after the three rows of PMT 1 have been stored over zeroed memory.\<close>

definition three_rows_raw :: raw where
  "three_rows_raw =
     \<lparr>voltage_raw = (\<lambda>i. 0)(0 := 1000, 1 := 1500, 2 := 2000),
      voltage_error_raw = (\<lambda>i. 2),
      gain_raw = (\<lambda>i. 0)(0 := 1 * 10 ^ 7, 1 := 3 * 10 ^ 7, 2 := 5 * 10 ^ 7),
      gain_error_raw = (\<lambda>i. 0)(0 := 2 * 10 ^ 7, 1 := 4 * 10 ^ 7, 2 := 6 * 10 ^ 7),
      num_data_points = 3\<rparr>"

text \<open>The result of the run on the three rows of PMT 1, with the fit that stays put.\<close>

definition three_rows_fit :: tf1 where
  "three_rows_fit =
     \<lparr>par0 = - 30, par1 = 7, parerr0 = 0, parerr1 = 0, chisquare = 0, ndf = 1\<rparr>"

definition three_rows_block :: "item list" where
  "three_rows_block =
     dash_line @ dash_line @
     [Dbl (- 30), Str '','', Dbl 0, Str '','', Dbl 7, Str '','', Dbl 0,
      Str '','', Dbl 0, Str '','', IntV 1, Str '','', Dbl 1, Endl]"



text \<open>
  Six rows of PMT 2, and the block that the fit that stays put leaves for them: the blocks of
  a channel with three rows and of a channel with six rows differ in the degrees of freedom.
\<close>

definition six_rows :: "token list" where
  "six_rows =
     [Num 2, Num 1000, Num 1, Num 2,
      Num 2, Num 1200, Num 2, Num 2,
      Num 2, Num 1400, Num 3, Num 4,
      Num 2, Num 1600, Num 4, Num 4,
      Num 2, Num 1800, Num 5, Num 6,
      Num 2, Num 2000, Num 6, Num 6]"

definition six_rows_block :: "item list" where
  "six_rows_block =
     dash_line @ dash_line @
     [Dbl (- 30), Str '','', Dbl 0, Str '','', Dbl 7, Str '','', Dbl 0,
      Str '','', Dbl 0, Str '','', IntV 4, Str '','', Dbl 1, Endl]"

text \<open>A row whose third field is not a number.\<close>

definition bad_row :: "token list" where
  "bad_row = [Num 3, Num 1000, Bad ''n/a'', Num 2]"

section \<open>The reading loop\<close>

lemma read_loop_foldl:
  "num_data_points a + length (matching pmt_num toks) \<le> 6 \<Longrightarrow>
   read_loop pmt_num toks a = Inr (foldl store_row a (matching pmt_num toks))"
  by (induction pmt_num toks a rule: read_loop.induct)
     (auto simp: matching_def store_row_def TMath_Power_def)

lemma read_loop_overflow:
  "num_data_points a \<le> 6 \<Longrightarrow> 6 < num_data_points a + length (matching pmt_num toks) \<Longrightarrow>
   read_loop pmt_num toks a = Inl (OutOfBounds 6)"
  by (induction pmt_num toks a rule: read_loop.induct)
     (auto simp: matching_def)

lemma foldl_store_n: "num_data_points (foldl store_row a ms) = num_data_points a + length ms"
  by (induction ms arbitrary: a) (auto simp: store_row_def)

lemma foldl_store_verr: "voltage_error_raw (foldl store_row a ms) = voltage_error_raw a"
  by (induction ms arbitrary: a) (auto simp: store_row_def)

lemma foldl_store_voltage:
  "voltage_raw (foldl store_row a ms) i =
     (if num_data_points a \<le> i \<and> i < num_data_points a + length ms
      then voltage (ms ! (i - num_data_points a)) else voltage_raw a i)"
  by (induction ms arbitrary: a i) (auto simp: store_row_def nth_Cons')

lemma foldl_store_gain:
  "gain_raw (foldl store_row a ms) i =
     (if num_data_points a \<le> i \<and> i < num_data_points a + length ms
      then gain (ms ! (i - num_data_points a)) * 10 ^ 7 else gain_raw a i)"
  by (induction ms arbitrary: a i) (auto simp: store_row_def nth_Cons')

lemma foldl_store_gain_error:
  "gain_error_raw (foldl store_row a ms) i =
     (if num_data_points a \<le> i \<and> i < num_data_points a + length ms
      then gain_error (ms ! (i - num_data_points a)) * 10 ^ 7 else gain_error_raw a i)"
  by (induction ms arbitrary: a i) (auto simp: store_row_def nth_Cons')

lemma declare_arrays_n: "num_data_points (declare_arrays u) = 0"
  by (simp add: declare_arrays_def)

lemma log_graph_foldl:
  "log_graph (foldl store_row (declare_arrays u) ms) = LogChannelSample ms"
  unfolding log_graph_def LogChannelSample_def
  by (auto simp: foldl_store_n foldl_store_verr foldl_store_voltage foldl_store_gain
      foldl_store_gain_error declare_arrays_def TMath_Log_def intro!: nth_equalityI)

lemma nolog_graph_foldl:
  "nolog_graph (foldl store_row (declare_arrays u) ms) = ChannelSample ms"
  unfolding nolog_graph_def ChannelSample_def
  by (auto simp: foldl_store_n foldl_store_verr foldl_store_voltage foldl_store_gain
      foldl_store_gain_error declare_arrays_def intro!: nth_equalityI)

lemma load_channel_char:
  "load_channel u toks pmt_num =
     (if length (matching pmt_num toks) \<le> 6
      then Inr (foldl store_row (declare_arrays u) (matching pmt_num toks))
      else Inl (OutOfBounds 6))"
  unfolding load_channel_def
  using read_loop_foldl [of "declare_arrays u" pmt_num toks]
        read_loop_overflow [of "declare_arrays u" pmt_num toks]
  by (simp add: declare_arrays_def)

section \<open>One PMT and the loop over the PMTs\<close>

lemma analyze_pmt_char:
  "analyze_pmt lib u toks pmt_num st =
     (if 6 < length (matching pmt_num toks) then Inl (OutOfBounds 6)
      else Inr (channel_out lib toks st pmt_num))"
  by (simp add: analyze_pmt_def load_channel_char foldl_store_n declare_arrays_n
      valid_count_def log_graph_foldl nolog_graph_foldl channel_fit_def channel_canvas_def
      channel_out_def table_block_def console_block_def canvas_block_def
      TMath_Exp_def Let_def)

lemma pmt_loop_step:
  "pmt_num < NPMT \<Longrightarrow>
   pmt_loop lib mem toks pmt_num st =
     (case analyze_pmt lib (mem pmt_num) toks pmt_num st of
        Inl e \<Rightarrow> Inl e
      | Inr st1 \<Rightarrow> pmt_loop lib mem toks (pmt_num + 1) st1)"
  by (subst pmt_loop.simps) simp

lemma pmt_loop_done: "\<not> pmt_num < NPMT \<Longrightarrow> pmt_loop lib mem toks pmt_num st = Inr st"
  by (subst pmt_loop.simps) simp

lemma pmt_loop_fault:
  "pmt_num \<le> k \<Longrightarrow> k < NPMT \<Longrightarrow> 6 < length (matching k toks) \<Longrightarrow>
   pmt_loop lib mem toks pmt_num st = Inl (OutOfBounds 6)"
proof (induction lib mem toks pmt_num st rule: pmt_loop.induct)
  case (1 lib mem toks pmt_num st)
  from 1(2,3) have lt: "pmt_num < NPMT" by simp
  show ?case
  proof (cases "6 < length (matching pmt_num toks)")
    case True
    with lt show ?thesis by (simp add: pmt_loop_step analyze_pmt_char)
  next
    case False
    then have run: "analyze_pmt lib (mem pmt_num) toks pmt_num st
        = Inr (channel_out lib toks st pmt_num)"
      by (simp add: analyze_pmt_char)
    from False 1(4) have "pmt_num \<noteq> k" by auto
    with 1(2) have "pmt_num + 1 \<le> k" by simp
    from 1(1) [OF lt run this 1(3) 1(4)] run lt show ?thesis
      by (simp add: pmt_loop_step)
  qed
qed

lemma pmt_loop_ok:
  "\<forall>k. pmt_num \<le> k \<and> k < NPMT \<longrightarrow> length (matching k toks) \<le> 6 \<Longrightarrow>
   pmt_loop lib mem toks pmt_num st = Inr (foldl (channel_out lib toks) st [pmt_num..<NPMT])"
proof (induction lib mem toks pmt_num st rule: pmt_loop.induct)
  case (1 lib mem toks pmt_num st)
  show ?case
  proof (cases "pmt_num < NPMT")
    case True
    with 1(2) have "length (matching pmt_num toks) \<le> 6" by simp
    then have run: "analyze_pmt lib (mem pmt_num) toks pmt_num st
        = Inr (channel_out lib toks st pmt_num)"
      by (simp add: analyze_pmt_char)
    from 1(2) have "\<forall>k. pmt_num + 1 \<le> k \<and> k < NPMT \<longrightarrow> length (matching k toks) \<le> 6"
      by simp
    from 1(1) [OF True run this] run True show ?thesis
      by (simp add: pmt_loop_step upt_conv_Cons)
  next
    case False
    then show ?thesis by (simp add: pmt_loop_done)
  qed
qed

lemma foldl_channel_out:
  "foldl (channel_out lib toks) st ks =
     st\<lparr>fout := fout st @ concat (map (table_block lib toks) ks),
        cout := cout st @ concat (map (console_block toks) ks),
        rootfile := rootfile st @ concat (map (canvas_block lib toks) ks)\<rparr>"
  by (induction ks arbitrary: st) (simp_all add: channel_out_def)

lemma GainVoltage_char:
  "GainVoltage lib mem toks =
     (if \<exists>k<NPMT. 6 < length (matching k toks) then Inl (OutOfBounds 6)
      else Inr \<lparr>fout = concat (map (table_block lib toks) [0..<NPMT]),
                cout = concat (map (console_block toks) [0..<NPMT]),
                rootfile = concat (map (canvas_block lib toks) [0..<NPMT])\<rparr>)"
proof (cases "\<exists>k<NPMT. 6 < length (matching k toks)")
  case True
  then obtain k where "k < NPMT" "6 < length (matching k toks)" by blast
  then have "GainVoltage lib mem toks = Inl (OutOfBounds 6)"
    unfolding GainVoltage_def by (intro pmt_loop_fault [of 0 k]) simp_all
  with True show ?thesis by simp
next
  case False
  then have "\<forall>k. 0 \<le> k \<and> k < NPMT \<longrightarrow> length (matching k toks) \<le> 6"
    by (meson not_less)
  from pmt_loop_ok [OF this] False show ?thesis
    by (simp add: GainVoltage_def foldl_channel_out)
qed

section \<open>The repeated fit\<close>

lemma refit_loop_step:
  "j < 9 \<Longrightarrow> refit_loop lib data j fit =
     refit_loop lib data (j + 1) (Fit lib data (fit\<lparr>par0 := par0 fit, par1 := par1 fit\<rparr>))"
  by (subst refit_loop.simps) (simp add: GetParameters_def SetParameters_def)

lemma refit_loop_done: "\<not> j < 9 \<Longrightarrow> refit_loop lib data j fit = fit"
  by (subst refit_loop.simps) simp

lemma refit_loop_passes:
  "j \<le> 9 \<Longrightarrow> refit_loop lib data j (refinement_pass lib data j) = refinement_pass lib data 9"
proof (induction "9 - j" arbitrary: j)
  case 0
  then have "j = 9" by simp
  then show ?case by (simp add: refit_loop_done)
next
  case (Suc d)
  then have lt: "j < 9" and d: "d = 9 - (j + 1)" and le: "j + 1 \<le> 9" by simp_all
  have "refit_loop lib data j (refinement_pass lib data j)
      = refit_loop lib data (j + 1) (refinement_pass lib data (j + 1))"
    using lt by (simp add: refit_loop_step Let_def)
  with Suc(1) [OF d le] show ?case by simp
qed

section \<open>The run depends on the input through the rows of each PMT\<close>

lemma GainVoltage_cong:
  assumes "\<And>k. matching k toks' = matching k toks"
  shows "GainVoltage lib mem' toks' = GainVoltage lib mem toks"
proof -
  have "table_block lib toks' = table_block lib toks"
    "console_block toks' = console_block toks"
    "canvas_block lib toks' = canvas_block lib toks"
    by (simp_all add: fun_eq_iff table_block_def console_block_def canvas_block_def
        channel_fit_def channel_canvas_def assms)
  then show ?thesis by (simp add: GainVoltage_char assms)
qed

lemma no_overflow_iff:
  "(\<forall>k<NPMT. length (matching k toks) \<le> 6) = (\<not> (\<exists>k<NPMT. 6 < length (matching k toks)))"
  by (meson not_less)

section \<open>Counting the lines of the fit table\<close>

lemma line_count_append: "line_count (xs @ ys) = line_count xs + line_count ys"
  by (simp add: line_count_def)

lemma line_count_block: "line_count (write_fit_parameters lib fit) = 3"
  by (simp add: line_count_def write_fit_parameters_def dash_line_def value_line_def
      numeral_2_eq_2)

lemma line_count_table:
  "line_count (concat (map (table_block lib toks) ks))
     = 3 * length (filter (\<lambda>k. valid_count (length (matching k toks))) ks)"
proof (induction ks)
  case Nil
  show ?case by (simp add: line_count_def)
next
  case (Cons k ks)
  have "line_count (table_block lib toks k)
      = (if valid_count (length (matching k toks)) then 3 else 0)"
    by (simp add: table_block_def line_count_block) (simp add: line_count_def)
  with Cons show ?case by (simp add: line_count_append)
qed

section \<open>Input with a field that is not a number\<close>

lemma records_numeric_prefix: "records (map Num xs @ Bad s # rest) = rows_of xs"
  by (induction xs rule: rows_of.induct) simp_all

lemma records_numeric: "records (map Num xs) = rows_of xs"
  by (induction xs rule: rows_of.induct) simp_all

lemma read_loop_numeric_prefix:
  "read_loop pmt_num (map Num xs @ Bad s # rest) a = read_loop pmt_num (map Num xs) a"
  by (induction xs arbitrary: a rule: rows_of.induct) simp_all

section \<open>The blocks of the fit table\<close>

lemma concat_map_if:
  "concat (map (\<lambda>x. if P x then f x else []) xs) = concat (map f (filter P xs))"
  by (induction xs) simp_all

lemma fout_table:
  "concat (map (table_block lib toks) [0..<NPMT])
     = concat (map (\<lambda>k. write_fit_parameters lib (channel_fit lib toks k)) (fitted_pmts toks))"
  unfolding fitted_pmts_def concat_map_if [symmetric]
  by (simp add: table_block_def [abs_def])

lemma matching_mset:
  assumes "mset (records toks') = mset (records toks)"
  shows "length (matching k toks') = length (matching k toks)"
proof -
  have "mset (matching k toks') = mset (matching k toks)"
    by (simp add: matching_def assms)
  then have "size (mset (matching k toks')) = size (mset (matching k toks))" by simp
  then show ?thesis by simp
qed

lemma fitted_channel_ids_sorted:
  "sorted_wrt (<) (fitted_channel_ids toks) \<and> set (fitted_channel_ids toks) \<subseteq> {1..NPMT}"
proof -
  have "sorted_wrt (<) (fitted_pmts toks)"
    unfolding fitted_pmts_def by (intro sorted_wrt_filter) simp
  then have "sorted_wrt (<) (fitted_channel_ids toks)"
    by (simp add: fitted_channel_ids_def sorted_wrt_map)
  moreover have "set (fitted_channel_ids toks) \<subseteq> {1..NPMT}"
    by (auto simp: fitted_channel_ids_def fitted_pmts_def)
  ultimately show ?thesis by simp
qed

lemma ndf_refinement_pass: "ndf (refinement_pass lib data k) = int (length (gx data)) - 2"
  by (cases k) (simp_all add: Fit_def Let_def NPAR_def)

lemma ndf_fit_channel: "ndf (fit_channel lib data) = int (length (gx data)) - 2"
proof -
  have "fit_channel lib data = refinement_pass lib data 9"
    using refit_loop_passes [of 0 lib data]
    by (simp add: fit_channel_def SetParameters_def)
  then show ?thesis by (simp only: ndf_refinement_pass)
qed

lemma ndf_channel_fit:
  "ndf (channel_fit lib toks pmt_num) = int (length (matching pmt_num toks)) - 2"
  by (simp add: channel_fit_def ndf_fit_channel LogChannelSample_def)

lemma table_block_fields:
  "map fields_of (lines_of (write_fit_parameters lib fit)) =
     [replicate 7 [Str ''--''], replicate 7 [Str ''--''],
      [[Dbl (par0 fit)], [Dbl (parerr0 fit)], [Dbl (par1 fit)], [Dbl (parerr1 fit)],
       [Dbl (chisquare fit)], [IntV (ndf fit)], [Dbl (TMath_Prob lib (chisquare fit) (ndf fit))]]]"
  by (simp add: write_fit_parameters_def dash_line_def value_line_def lines_of_def fields_of_def
      GetParError_def GetChisquare_def GetNDF_def GetProb_def numeral_2_eq_2 eval_nat_numeral)


section \<open>The example inputs\<close>

lemma load_three_rows: "load_channel (zero_mem 0) three_rows 0 = Inr three_rows_raw"
  by (simp add: load_channel_def three_rows_def declare_arrays_def zero_mem_def
      TMath_Power_def three_rows_raw_def numeral_2_eq_2 numeral_3_eq_3)

lemma matching_three_rows:
  "matching k three_rows =
     (if k = 0 then [\<lparr>channel_id = 1, voltage = 1000, gain = 1, gain_error = 2\<rparr>,
                     \<lparr>channel_id = 1, voltage = 1500, gain = 3, gain_error = 4\<rparr>,
                     \<lparr>channel_id = 1, voltage = 2000, gain = 5, gain_error = 6\<rparr>] else [])"
  by (simp add: matching_def three_rows_def)

lemma matching_seven_rows: "length (matching k seven_rows) = (if k = 0 then 7 else 0)"
  by (simp add: matching_def seven_rows_def)

lemma matching_four_rows: "length (matching k four_rows) = (if k = 1 then 4 else 0)"
  by (simp add: matching_def four_rows_def)

lemma fitted_four_rows: "fitted_pmts four_rows = []"
  by (simp add: fitted_pmts_def matching_four_rows valid_count_def)

lemma fit_three_rows: "fit_channel still_lib (log_graph three_rows_raw) = three_rows_fit"
  by (simp add: fit_channel_def refit_loop_step refit_loop_done Fit_def still_lib_def
      SetParameters_def new_TF1_def three_rows_fit_def log_graph_def three_rows_raw_def NPAR_def)


lemma log_three_rows_raw: "LogChannelSample (matching 0 three_rows) = log_graph three_rows_raw"
proof -
  from load_three_rows
  have "foldl store_row (declare_arrays (zero_mem 0)) (matching 0 three_rows) = three_rows_raw"
    by (simp add: load_channel_char split: if_splits)
  with log_graph_foldl [of "zero_mem 0" "matching 0 three_rows"] show ?thesis by simp
qed





lemma fit_channel_still:
  "fit_channel still_lib data =
     \<lparr>par0 = - 30, par1 = 7, parerr0 = 0, parerr1 = 0, chisquare = 0,
      ndf = int (length (gx data)) - 2\<rparr>"
  by (simp add: fit_channel_def refit_loop_step refit_loop_done Fit_def still_lib_def
      SetParameters_def new_TF1_def NPAR_def)

lemma block_still:
  "write_fit_parameters still_lib
     \<lparr>par0 = - 30, par1 = 7, parerr0 = 0, parerr1 = 0, chisquare = 0, ndf = n\<rparr> =
   dash_line @ dash_line @
     [Dbl (- 30), Str '','', Dbl 0, Str '','', Dbl 7, Str '','', Dbl 0,
      Str '','', Dbl 0, Str '','', IntV n, Str '','', Dbl 1, Endl]"
  by (simp add: write_fit_parameters_def value_line_def GetParError_def GetChisquare_def
      GetNDF_def GetProb_def still_lib_def numeral_2_eq_2)

lemma records_six_three:
  "records (six_rows @ three_rows) = records six_rows @ records three_rows"
  "records (three_rows @ six_rows) = records three_rows @ records six_rows"
  by (simp_all add: three_rows_def six_rows_def)

lemma matching_six_rows: "length (matching k six_rows) = (if k = 1 then 6 else 0)"
  by (simp add: matching_def six_rows_def)

lemma matching_append_six_three:
  "matching k (six_rows @ three_rows) = matching k six_rows @ matching k three_rows"
  "matching k (three_rows @ six_rows) = matching k three_rows @ matching k six_rows"
  by (simp_all add: matching_def records_six_three)

lemma matching_six_three:
  "length (matching k (six_rows @ three_rows)) = (if k = 0 then 3 else if k = 1 then 6 else 0)"
  "length (matching k (three_rows @ six_rows)) = (if k = 0 then 3 else if k = 1 then 6 else 0)"
  by (simp_all add: matching_append_six_three matching_six_rows matching_three_rows)

lemma fitted_six_three:
  "fitted_channel_ids (six_rows @ three_rows) = [1, 2]"
  "fitted_channel_ids (three_rows @ six_rows) = [1, 2]"
  by (simp_all add: fitted_channel_ids_def fitted_pmts_def matching_six_three
      valid_count_def NPMT_def upt_rec)

lemma channel_fit_still:
  "channel_fit still_lib toks k =
     \<lparr>par0 = - 30, par1 = 7, parerr0 = 0, parerr1 = 0, chisquare = 0,
      ndf = int (length (matching k toks)) - 2\<rparr>"
  by (simp add: channel_fit_def fit_channel_still LogChannelSample_def)

section \<open>The claims\<close>

text \<open>
  C10. The rows of a PMT are stored into the six-element arrays while the file is read, before
  the count is compared with 3 and 6. Loading one PMT stays inside the arrays exactly when
  that PMT has at most six matching rows in the input, and otherwise the store index 6 is
  outside the arrays; the whole run stays inside the arrays exactly when every one of the
  ten PMTs has at most six matching rows.
\<close>

theorem raw_arrays_in_bounds_iff:
  "(load_channel u toks pmt_num = Inl (OutOfBounds 6)) = (6 < length (matching pmt_num toks)) \<and>
   ((\<exists>a. load_channel u toks pmt_num = Inr a) = (length (matching pmt_num toks) \<le> 6)) \<and>
   (GainVoltage lib mem toks = Inl (OutOfBounds 6)) = (\<exists>k<NPMT. 6 < length (matching k toks)) \<and>
   ((\<exists>st. GainVoltage lib mem toks = Inr st) = (\<forall>k<NPMT. length (matching k toks) \<le> 6))"
proof -
  have "(\<forall>k<NPMT. length (matching k toks) \<le> 6) = (\<not> (\<exists>k<NPMT. 6 < length (matching k toks)))"
    by (meson not_less)
  then show ?thesis
    by (simp add: load_channel_char GainVoltage_char)
qed

theorem raw_arrays_in_bounds_iff_witness:
  "6 < length (matching 0 seven_rows) \<and>
   load_channel (zero_mem 0) seven_rows 0 = Inl (OutOfBounds 6) \<and>
   GainVoltage still_lib zero_mem seven_rows = Inl (OutOfBounds 6) \<and>
   length (matching 0 three_rows) \<le> 6 \<and>
   GainVoltage still_lib zero_mem three_rows \<noteq> Inl (OutOfBounds 6)"
proof -
  have seven: "6 < length (matching 0 seven_rows)"
    by (simp add: matching_seven_rows)
  then have ex: "\<exists>k<NPMT. 6 < length (matching k seven_rows)"
    by (intro exI [of _ 0]) (simp add: NPMT_def)
  have three: "\<not> (\<exists>k<NPMT. 6 < length (matching k three_rows))"
    by (simp add: matching_three_rows)
  from seven ex three
    raw_arrays_in_bounds_iff [of "zero_mem 0" seven_rows 0 still_lib zero_mem]
    raw_arrays_in_bounds_iff [of "zero_mem 0" three_rows 0 still_lib zero_mem]
  show ?thesis by (simp add: matching_three_rows)
qed

text \<open>
  C9. The pipeline is deterministic. A run is a function of the fields of the input file and
  of the fitting library; the only other thing a run can see is the content of the arrays it
  declares without initialiser. Two runs on the same input with the same library produce the
  same result, fit table included, whatever that content is in either run.
\<close>

theorem run_independent_of_uninitialised_memory:
  "GainVoltage lib mem toks = GainVoltage lib mem' toks"
  by (simp only: GainVoltage_char)

text \<open>
  C1 (where the code departs from it). A PMT whose number of matching rows is neither 3 nor 6
  is to be skipped without ending the run. For an input with seven rows of PMT 1 the run
  does not reach the skip: the seventh row is stored at index 6 of the six-element arrays.
\<close>

theorem seven_rows_overflow:
  "length (matching 0 seven_rows) = 7 \<and>
   load_channel (zero_mem 0) seven_rows 0 = Inl (OutOfBounds 6) \<and>
   GainVoltage still_lib zero_mem seven_rows = Inl (OutOfBounds 6)"
  by (simp add: GainVoltage_def pmt_loop_step NPMT_def analyze_pmt_def load_channel_def
      seven_rows_def declare_arrays_def TMath_Power_def matching_def)

text \<open>
  C2. The fit of a channel starts the straight line at c0 = -30, c1 = 7, runs the regression,
  and runs it nine more times, each time started from the parameters that the pass before
  it fitted: the loop of the code returns the tenth pass of that sequence.
\<close>

theorem fit_channel_is_tenth_pass: "fit_channel lib data = refinement_pass lib data 9"
  using refit_loop_passes [of 0 lib data]
  by (simp add: fit_channel_def SetParameters_def)

text \<open>
  C3. For every retained measurement (the i-th matching row of a PMT) the arrays handed to
  the fit hold: the voltage as read, with the fixed voltage error 2; the gain and its error
  multiplied by 10^7; the logarithm of the voltage; the logarithm of the scaled gain; the
  scaled gain error divided by the scaled gain; the voltage error divided by the voltage.
\<close>

theorem log_transform_of_retained_rows:
  assumes "load_channel u toks pmt_num = Inr a" and "i < length (matching pmt_num toks)"
  shows "num_data_points a = length (matching pmt_num toks) \<and>
     length (gx (log_graph a)) = length (matching pmt_num toks) \<and>
     gx (nolog_graph a) ! i = voltage (matching pmt_num toks ! i) \<and>
     gy (nolog_graph a) ! i = gain (matching pmt_num toks ! i) * 10 ^ 7 \<and>
     gey (nolog_graph a) ! i = gain_error (matching pmt_num toks ! i) * 10 ^ 7 \<and>
     gex (nolog_graph a) ! i = 2 \<and>
     gx (log_graph a) ! i = ln (gx (nolog_graph a) ! i) \<and>
     gy (log_graph a) ! i = ln (gy (nolog_graph a) ! i) \<and>
     gey (log_graph a) ! i = gey (nolog_graph a) ! i / gy (nolog_graph a) ! i \<and>
     gex (log_graph a) ! i = gex (nolog_graph a) ! i / gx (nolog_graph a) ! i"
proof -
  from assms(1) have a: "a = foldl store_row (declare_arrays u) (matching pmt_num toks)"
    by (simp add: load_channel_char split: if_splits)
  show ?thesis
    using assms(2) unfolding a log_graph_foldl nolog_graph_foldl
    by (simp add: foldl_store_n declare_arrays_n LogChannelSample_def ChannelSample_def)
qed

theorem log_transform_of_retained_rows_witness:
  "load_channel (zero_mem 0) three_rows 0 = Inr three_rows_raw \<and>
   (1::nat) < length (matching 0 three_rows) \<and>
   gx (log_graph three_rows_raw) ! 1 = ln 1500 \<and>
   gy (log_graph three_rows_raw) ! 1 = ln (3 * 10 ^ 7) \<and>
   gey (log_graph three_rows_raw) ! 1 = (4 * 10 ^ 7) / (3 * 10 ^ 7) \<and>
   gex (log_graph three_rows_raw) ! 1 = 2 / 1500"
proof -
  have i: "(1::nat) < length (matching 0 three_rows)"
    by (simp add: matching_three_rows)
  from log_transform_of_retained_rows [OF load_three_rows i] load_three_rows i
  show ?thesis by (simp add: matching_three_rows)
qed

text \<open>
  C4 (as the claim states it). A skipped channel is said to keep its slot in the fit table,
  with the two placeholder lines. For an input with four rows of PMT 2 and no other row, all
  ten channels are skipped and the fit table stays empty.
\<close>

theorem table_has_no_slot_for_skipped_channels:
  "GainVoltage still_lib zero_mem four_rows
     = Inr \<lparr>fout = [], cout = concat (map skip_message [0, 1, 2, 3, 4, 5, 6, 7, 8, 9]),
            rootfile = []\<rparr>"
  by (simp add: GainVoltage_def pmt_loop_step pmt_loop_done NPMT_def analyze_pmt_def
      load_channel_def four_rows_def declare_arrays_def TMath_Power_def skip_message_def)

text \<open>
  C4 (amended). For a skipped channel (a number of matching rows other than 3 and 6, and at
  most 6) nothing is written to the fit table, neither placeholder lines nor a data line:
  the only effect is the diagnostic on the console. The fit table holds three lines for
  every fitted channel and none for a skipped one.
\<close>

theorem skipped_channel_writes_no_line:
  "(length (matching pmt_num toks) \<le> 6 \<and> \<not> valid_count (length (matching pmt_num toks)) \<longrightarrow>
      analyze_pmt lib u toks pmt_num st = Inr (st\<lparr>cout := cout st @ skip_message pmt_num\<rparr>)) \<and>
   ((\<forall>k<NPMT. length (matching k toks) \<le> 6) \<longrightarrow>
      map_sum id (\<lambda>st. line_count (fout st)) (GainVoltage lib mem toks)
        = Inr (3 * length (fitted_pmts toks)))"
  by (simp add: no_overflow_iff analyze_pmt_char channel_out_def table_block_def
      console_block_def canvas_block_def GainVoltage_char line_count_table fitted_pmts_def)

theorem skipped_channel_writes_no_line_witness:
  "length (matching 1 four_rows) \<le> 6 \<and> \<not> valid_count (length (matching 1 four_rows)) \<and>
   analyze_pmt still_lib (zero_mem 1) four_rows 1 \<lparr>fout = [], cout = [], rootfile = []\<rparr>
     = Inr \<lparr>fout = [], cout = skip_message 1, rootfile = []\<rparr> \<and>
   map_sum id (\<lambda>st. line_count (fout st)) (GainVoltage still_lib zero_mem four_rows) = Inr 0"
proof -
  have a: "length (matching 1 four_rows) \<le> 6 \<and> \<not> valid_count (length (matching 1 four_rows))"
    by (simp add: matching_four_rows valid_count_def)
  have b: "\<forall>k<NPMT. length (matching k four_rows) \<le> 6"
    by (simp add: matching_four_rows)
  from a b skipped_channel_writes_no_line
    [of 1 four_rows still_lib "zero_mem 1" "\<lparr>fout = [], cout = [], rootfile = []\<rparr>" zero_mem]
  show ?thesis by (simp add: fitted_four_rows)
qed

text \<open>
  C5 (as the claim states it). A row that cannot be parsed is said to be the only row lost.
  With a row whose third field is not a number in front of the three rows of PMT 1, nothing
  is loaded for PMT 1; without that row, the three rows are loaded.
\<close>

theorem malformed_row_hides_later_rows:
  "load_channel (zero_mem 0) (bad_row @ three_rows) 0 = Inr (declare_arrays (zero_mem 0)) \<and>
   num_data_points (declare_arrays (zero_mem 0)) = 0 \<and>
   load_channel (zero_mem 0) three_rows 0 = Inr three_rows_raw \<and>
   num_data_points three_rows_raw = 3"
  by (simp add: load_channel_def three_rows_def bad_row_def declare_arrays_def zero_mem_def
      TMath_Power_def three_rows_raw_def numeral_2_eq_2 numeral_3_eq_3)

text \<open>
  C5 (amended). Reading stops without any error at the first field that is not a number. The
  rows loaded are the complete groups of four numeric fields in front of that field; that
  field and everything after it are dropped, and the run goes on exactly as it does on the
  numeric fields in front of it.
\<close>

theorem reading_stops_at_first_malformed_field:
  "read_loop pmt_num (map Num xs @ Bad s # rest) a = read_loop pmt_num (map Num xs) a \<and>
   records (map Num xs @ Bad s # rest) = rows_of xs \<and>
   length (rows_of xs) = length xs div 4 \<and>
   GainVoltage lib mem (map Num xs @ Bad s # rest) = GainVoltage lib mem (map Num xs)"
proof -
  have "length (rows_of xs) = length xs div 4"
    by (induction xs rule: rows_of.induct) simp_all
  moreover have "matching k (map Num xs @ Bad s # rest) = matching k (map Num xs)" for k
    by (simp add: matching_def records_numeric_prefix records_numeric)
  then have "GainVoltage lib mem (map Num xs @ Bad s # rest) = GainVoltage lib mem (map Num xs)"
    by (rule GainVoltage_cong)
  ultimately show ?thesis
    by (simp add: read_loop_numeric_prefix records_numeric_prefix)
qed

text \<open>
  C6. For every input that stays inside the arrays, and for an input whose rows are any
  permutation of its rows, the fit table is the sequence of the blocks of the fitted
  channels, in strictly increasing order of the channel id, with ids between 1 and the
  channel count; the permuted input yields blocks for the same channels in the same order.
\<close>

theorem fit_table_blocks_in_channel_order:
  assumes "\<forall>k<NPMT. length (matching k toks) \<le> 6"
    and "mset (records toks') = mset (records toks)"
  shows "map_sum id fout (GainVoltage lib mem toks)
       = Inr (concat (map (\<lambda>id. write_fit_parameters lib (channel_fit lib toks (id - 1)))
                          (fitted_channel_ids toks))) \<and>
     map_sum id fout (GainVoltage lib mem toks')
       = Inr (concat (map (\<lambda>id. write_fit_parameters lib (channel_fit lib toks' (id - 1)))
                          (fitted_channel_ids toks'))) \<and>
     fitted_channel_ids toks' = fitted_channel_ids toks \<and>
     sorted_wrt (<) (fitted_channel_ids toks) \<and>
     set (fitted_channel_ids toks) \<subseteq> {1..NPMT}"
proof -
  from assms(1) have ok': "\<forall>k<NPMT. length (matching k toks') \<le> 6"
    by (simp add: matching_mset [OF assms(2)])
  have same: "fitted_channel_ids toks' = fitted_channel_ids toks"
    by (simp add: fitted_channel_ids_def fitted_pmts_def matching_mset [OF assms(2)])
  have table: "map_sum id fout (GainVoltage lib mem t)
       = Inr (concat (map (\<lambda>id. write_fit_parameters lib (channel_fit lib t (id - 1)))
                          (fitted_channel_ids t)))"
    if "\<forall>k<NPMT. length (matching k t) \<le> 6" for t
    using that
    by (simp add: no_overflow_iff GainVoltage_char fout_table fitted_channel_ids_def comp_def)
  from table [OF assms(1)] table [OF ok'] same fitted_channel_ids_sorted [of toks]
  show ?thesis by simp
qed

theorem fit_table_blocks_in_channel_order_witness:
  "length (matching 0 (six_rows @ three_rows)) = 3 \<and>
   length (matching 1 (six_rows @ three_rows)) = 6 \<and>
   mset (records (three_rows @ six_rows)) = mset (records (six_rows @ three_rows)) \<and>
   fitted_channel_ids (six_rows @ three_rows) = [1, 2] \<and>
   fitted_channel_ids (three_rows @ six_rows) = [1, 2] \<and>
   map_sum id fout (GainVoltage still_lib zero_mem (six_rows @ three_rows))
     = Inr (three_rows_block @ six_rows_block) \<and>
   map_sum id fout (GainVoltage still_lib zero_mem (three_rows @ six_rows))
     = Inr (three_rows_block @ six_rows_block) \<and>
   three_rows_block @ six_rows_block \<noteq> six_rows_block @ three_rows_block"
proof -
  have a: "\<forall>k<NPMT. length (matching k (six_rows @ three_rows)) \<le> 6"
    by (simp add: matching_six_three)
  have b: "mset (records (three_rows @ six_rows)) = mset (records (six_rows @ three_rows))"
    by (simp add: records_six_three)
  have c: "three_rows_block @ six_rows_block \<noteq> six_rows_block @ three_rows_block"
    by (simp add: three_rows_block_def six_rows_block_def dash_line_def)
  from fit_table_blocks_in_channel_order [OF a b, of still_lib zero_mem] b c
  show ?thesis
    by (simp add: fitted_six_three channel_fit_still block_still matching_six_three
        three_rows_block_def six_rows_block_def)
qed

text \<open>
  C7. For every channel that is not skipped (3 or 6 matching rows), the run appends to the fit
  table two placeholder lines with the token "--" in each of the 7 comma-separated fields,
  followed by one data line with the fields constant, constant error, exponent, exponent
  error, chi-square, degrees of freedom and fit probability in that order; the degrees of
  freedom are N - 2 for a channel with N data points.
\<close>

theorem fit_table_block_layout:
  assumes "valid_count (length (matching pmt_num toks))"
  shows "map_sum id fout (analyze_pmt lib u toks pmt_num st)
       = Inr (fout st @ dash_line @ dash_line @ value_line lib (channel_fit lib toks pmt_num)) \<and>
     map fields_of (lines_of (dash_line @ dash_line @ value_line lib (channel_fit lib toks pmt_num))) =
       [replicate 7 [Str ''--''], replicate 7 [Str ''--''],
        [[Dbl (par0 (channel_fit lib toks pmt_num))],
         [Dbl (parerr0 (channel_fit lib toks pmt_num))],
         [Dbl (par1 (channel_fit lib toks pmt_num))],
         [Dbl (parerr1 (channel_fit lib toks pmt_num))],
         [Dbl (chisquare (channel_fit lib toks pmt_num))],
         [IntV (int (length (matching pmt_num toks)) - 2)],
         [Dbl (TMath_Prob lib (chisquare (channel_fit lib toks pmt_num))
                 (int (length (matching pmt_num toks)) - 2))]]]"
proof -
  from assms have "\<not> 6 < length (matching pmt_num toks)"
    by (auto simp: valid_count_def)
  with assms have "map_sum id fout (analyze_pmt lib u toks pmt_num st)
       = Inr (fout st @ write_fit_parameters lib (channel_fit lib toks pmt_num))"
    by (simp add: analyze_pmt_char channel_out_def table_block_def)
  moreover have "write_fit_parameters lib fit = dash_line @ dash_line @ value_line lib fit" for fit
    by (simp add: write_fit_parameters_def numeral_2_eq_2)
  ultimately show ?thesis
    using table_block_fields [of lib "channel_fit lib toks pmt_num"]
    by (simp add: ndf_channel_fit)
qed

theorem fit_table_block_layout_witness:
  "valid_count (length (matching 0 three_rows)) \<and>
   map_sum id fout (analyze_pmt still_lib (zero_mem 0) three_rows 0 \<lparr>fout = [], cout = [], rootfile = []\<rparr>)
     = Inr (dash_line @ dash_line @
            [Dbl (- 30), Str '','', Dbl 0, Str '','', Dbl 7, Str '','', Dbl 0,
             Str '','', Dbl 0, Str '','', IntV 1, Str '','', Dbl 1, Endl])"
proof -
  have v: "valid_count (length (matching 0 three_rows))"
    by (simp add: matching_three_rows valid_count_def)
  have f: "channel_fit still_lib three_rows 0 = three_rows_fit"
    by (simp add: channel_fit_def log_three_rows_raw fit_three_rows)
  have l: "value_line still_lib three_rows_fit =
      [Dbl (- 30), Str '','', Dbl 0, Str '','', Dbl 7, Str '','', Dbl 0,
             Str '','', Dbl 0, Str '','', IntV 1, Str '','', Dbl 1, Endl]"
    by (simp add: value_line_def three_rows_fit_def
      GetParError_def GetChisquare_def GetNDF_def GetProb_def still_lib_def)
  from fit_table_block_layout [OF v, of still_lib "zero_mem 0" "\<lparr>fout = [], cout = [], rootfile = []\<rparr>"] v
  show ?thesis by (simp add: f l)
qed



end
